theory Spec2Isabelle
  imports Complex_Main
begin

section \<open>Data model (types.ts, constants.ts)\<close>

text \<open>
  \<^verbatim>\<open>PlayerSymbol = 'X' | 'O'\<close>. The constructors are called \<open>SymX\<close> and \<open>SymO\<close>
  because \<open>O\<close> is HOL's relation composition.
\<close>

datatype PlayerSymbol = SymX | SymO

text \<open>
  \<^verbatim>\<open>CellValue = PlayerSymbol | null\<close>. A JavaScript array read outside the array gives
  \<^verbatim>\<open>undefined\<close>, and a write beyond the end leaves holes that read as \<^verbatim>\<open>undefined\<close>;
  \<open>Undefined\<close> stands for both, so that the out-of-range behaviour of the source is
  written out.
\<close>

datatype CellValue = Undefined | Null | Mark PlayerSymbol

text \<open>The type of \<^verbatim>\<open>winner\<close>: \<^verbatim>\<open>PlayerSymbol | 'draw'\<close>, with \<^verbatim>\<open>null\<close> as \<open>None\<close>.\<close>

datatype Outcome = Sym PlayerSymbol | Draw

datatype GameMode = SINGLE | LOCAL | ONLINE

datatype Difficulty = EASY | MEDIUM | HARD

datatype GameStatus = WAITING | PLAYING | FINISHED | DRAW

datatype View = LANDING | MODE_SELECT | ONLINE_MENU | CREATE_ROOM | JOIN_ROOM | LOBBY | GAME

definition WINNING_COMBINATIONS :: "nat list list" where
  "WINNING_COMBINATIONS =
     [[0, 1, 2], [3, 4, 5], [6, 7, 8],
      [0, 3, 6], [1, 4, 7], [2, 5, 8],
      [0, 4, 8], [2, 4, 6]]"

definition EMPTY_BOARD :: "CellValue list" where
  "EMPTY_BOARD = replicate 9 Null"

subsection \<open>JavaScript array reads and writes\<close>

text \<open>\<^verbatim>\<open>board[i]\<close>: \<^verbatim>\<open>undefined\<close> outside the array.\<close>

definition cellAt :: "CellValue list \<Rightarrow> nat \<Rightarrow> CellValue" where
  "cellAt b i = (if i < length b then b ! i else Undefined)"

text \<open>\<^verbatim>\<open>board[i] = v\<close>: beyond the end the array grows, the gap reading \<^verbatim>\<open>undefined\<close>.\<close>

definition setCell :: "CellValue list \<Rightarrow> nat \<Rightarrow> CellValue \<Rightarrow> CellValue list" where
  "setCell b i v =
     (if i < length b then b[i := v]
      else b @ replicate (i - length b) Undefined @ [v])"

text \<open>Truthiness of a cell: \<^verbatim>\<open>'X'\<close> and \<^verbatim>\<open>'O'\<close> are truthy, \<^verbatim>\<open>null\<close> and \<^verbatim>\<open>undefined\<close> are not.\<close>

fun truthy :: "CellValue \<Rightarrow> bool" where
  "truthy (Mark s) = True"
| "truthy Null = False"
| "truthy Undefined = False"

section \<open>Terminal evaluation (checkGameStatus, the controller's useCallback)\<close>

text \<open>
  The loop \<^verbatim>\<open>for (const combo of WINNING_COMBINATIONS)\<close> with its early return: the
  destructuring \<^verbatim>\<open>const [a, b, c] = combo\<close> takes the first three entries, and the test is
  \<^verbatim>\<open>board[a] && board[a] === board[b] && board[a] === board[c]\<close>.
\<close>

fun scanCombos :: "CellValue list \<Rightarrow> nat list list \<Rightarrow> (PlayerSymbol \<times> nat list) option" where
  "scanCombos b [] = None"
| "scanCombos b (combo # rest) =
     (case combo of
        a # b' # c # _ \<Rightarrow>
          (case cellAt b a of
             Mark s \<Rightarrow>
               if cellAt b a = cellAt b b' \<and> cellAt b a = cellAt b c
               then Some (s, combo)
               else scanCombos b rest
           | _ \<Rightarrow> scanCombos b rest)
      | _ \<Rightarrow> scanCombos b rest)"

text \<open>
  \<^verbatim>\<open>checkGameStatus\<close> returns \<^verbatim>\<open>{winner, line}\<close> or \<^verbatim>\<open>null\<close>;
  \<^verbatim>\<open>!currentBoard.includes(null)\<close> is \<open>Null \<notin> set b\<close>.
\<close>

definition checkGameStatus :: "CellValue list \<Rightarrow> (Outcome \<times> nat list option) option" where
  "checkGameStatus currentBoard =
     (case scanCombos currentBoard WINNING_COMBINATIONS of
        Some (s, combo) \<Rightarrow> Some (Sym s, Some combo)
      | None \<Rightarrow> if Null \<notin> set currentBoard then Some (Draw, None) else None)"

section \<open>The AI (services/ai.ts)\<close>

text \<open>\<^verbatim>\<open>checkWinner\<close>: the same scan, returning only the symbol, \<^verbatim>\<open>'draw'\<close> or \<^verbatim>\<open>null\<close>.\<close>

definition checkWinner :: "CellValue list \<Rightarrow> Outcome option" where
  "checkWinner b =
     (case scanCombos b WINNING_COMBINATIONS of
        Some (s, combo) \<Rightarrow> Some (Sym s)
      | None \<Rightarrow> if Null \<notin> set b then Some Draw else None)"

text \<open>Scores of \<^verbatim>\<open>minimax\<close>: numbers, with the \<^verbatim>\<open>-Infinity\<close> and \<^verbatim>\<open>Infinity\<close> the loops start from.\<close>

datatype Score = NegInf | Fin int | PosInf

fun score_less :: "Score \<Rightarrow> Score \<Rightarrow> bool" where
  "score_less NegInf NegInf = False"
| "score_less NegInf _ = True"
| "score_less (Fin a) (Fin b) = (a < b)"
| "score_less (Fin a) PosInf = True"
| "score_less (Fin a) NegInf = False"
| "score_less PosInf _ = False"

definition score_max :: "Score \<Rightarrow> Score \<Rightarrow> Score" where
  "score_max a b = (if score_less a b then b else a)"

definition score_min :: "Score \<Rightarrow> Score \<Rightarrow> Score" where
  "score_min a b = (if score_less b a then b else a)"

text \<open>The cells \<^verbatim>\<open>for (let i = 0; i < 9; i++) if (board[i] === null)\<close> visits.\<close>

definition emptyCells :: "CellValue list \<Rightarrow> nat list" where
  "emptyCells b = filter (\<lambda>i. cellAt b i = Null) [0..<9]"

definition nullCount :: "CellValue list \<Rightarrow> nat" where
  "nullCount b = length (filter (\<lambda>c. c = Null) b)"

lemma nullCount_mark:
  assumes "i \<in> set (emptyCells b)"
  shows "nullCount (b[i := Mark s]) < nullCount b"
proof -
  from assms have i: "i < length b" and n: "b ! i = Null"
    by (auto simp: emptyCells_def cellAt_def split: if_splits)
  have b: "b = take i b @ Null # drop (Suc i) b"
    using i n by (metis id_take_nth_drop)
  have u: "b[i := Mark s] = take i b @ Mark s # drop (Suc i) b"
    using i by (simp add: upd_conv_take_nth_drop)
  have "nullCount b = nullCount (take i b) + 1 + nullCount (drop (Suc i) b)"
    by (subst b) (simp add: nullCount_def)
  moreover have "nullCount (b[i := Mark s]) = nullCount (take i b) + nullCount (drop (Suc i) b)"
    by (simp add: u nullCount_def)
  ultimately show ?thesis by simp
qed

text \<open>
  \<^verbatim>\<open>minimax\<close> writes \<^verbatim>\<open>board[i] = 'O'\<close> (or \<^verbatim>\<open>'X'\<close>), recurses and restores
  \<^verbatim>\<open>board[i] = null\<close> before the next iteration, so every iteration starts from the same
  board; the model passes the updated copy instead. \<^verbatim>\<open>bestScore\<close> is folded over the
  visited cells with \<^verbatim>\<open>Math.max\<close> or \<^verbatim>\<open>Math.min\<close>.
\<close>

function minimax :: "CellValue list \<Rightarrow> int \<Rightarrow> bool \<Rightarrow> Score" where
  "minimax b depth isMaximizing =
     (case checkWinner b of
        Some (Sym SymO) \<Rightarrow> Fin (10 - depth)
      | Some (Sym SymX) \<Rightarrow> Fin (depth - 10)
      | Some Draw \<Rightarrow> Fin 0
      | None \<Rightarrow>
          if isMaximizing
          then foldl (\<lambda>bestScore score. score_max score bestScore) NegInf
                 (map (\<lambda>i. minimax (b[i := Mark SymO]) (depth + 1) False) (emptyCells b))
          else foldl (\<lambda>bestScore score. score_min score bestScore) PosInf
                 (map (\<lambda>i. minimax (b[i := Mark SymX]) (depth + 1) True) (emptyCells b)))"
  by pat_completeness auto
termination
  by (relation "measure (\<lambda>(b, depth, isMaximizing). nullCount b)")
     (auto simp: nullCount_mark)

text \<open>
  \<^verbatim>\<open>board.map((val, idx) => (val === null ? idx : null)).filter((val) => val !== null)\<close>:
  the indices of the array that hold \<^verbatim>\<open>null\<close>, in increasing order.
\<close>

definition availableMoves :: "CellValue list \<Rightarrow> nat list" where
  "availableMoves b = filter (\<lambda>idx. b ! idx = Null) [0..<length b]"

text \<open>\<^verbatim>\<open>availableMoves[k]\<close> for a number \<open>k\<close>: \<^verbatim>\<open>undefined\<close> (\<open>None\<close>) outside the array.\<close>

definition pick :: "nat list \<Rightarrow> int \<Rightarrow> int option" where
  "pick xs k = (if 0 \<le> k \<and> k < int (length xs) then Some (int (xs ! nat k)) else None)"

text \<open>
  \<^verbatim>\<open>Math.floor(Math.random() * n)\<close>, the value \<open>r\<close> of \<^verbatim>\<open>Math.random()\<close> being an input
  of the model (a real number; the source's is a double in \<open>[0, 1)\<close>). The model floors
  the exact product, the source the product rounded to a double: where the rounding
  reaches the next integer the source's index is one more than the model's. Both stay
  below \<open>n\<close>, since the rounded product of a double below 1 and \<open>n\<close> is below \<open>n\<close>.
\<close>

definition randomIndex :: "real \<Rightarrow> nat \<Rightarrow> int" where
  "randomIndex r n = \<lfloor>r * real n\<rfloor>"

text \<open>One iteration of the HARD loop, on the pair \<^verbatim>\<open>(bestScore, move)\<close>.\<close>

definition hardStep :: "CellValue list \<Rightarrow> Score \<times> int \<Rightarrow> nat \<Rightarrow> Score \<times> int" where
  "hardStep b acc i =
     (if cellAt b i = Null
      then (let score = minimax (b[i := Mark SymO]) 0 False
            in if score_less (fst acc) score then (score, int i) else acc)
      else acc)"

definition getBestMove :: "CellValue list \<Rightarrow> Difficulty \<Rightarrow> real \<Rightarrow> int option" where
  "getBestMove b difficulty r =
     (let available = availableMoves b in
      if length available = 0 then Some (- 1)
      else if difficulty = EASY then pick available (randomIndex r (length available))
      else if difficulty = MEDIUM then
        (case find (\<lambda>move. checkWinner (b[move := Mark SymO]) = Some (Sym SymO)) available of
           Some move \<Rightarrow> Some (int move)
         | None \<Rightarrow>
            (case find (\<lambda>move. checkWinner (b[move := Mark SymX]) = Some (Sym SymX)) available of
               Some move \<Rightarrow> Some (int move)
             | None \<Rightarrow> pick available (randomIndex r (length available))))
      else if length available \<ge> 8 \<and> cellAt b 4 = Null then Some 4
      else (let move = snd (foldl (hardStep b) (NegInf, - 1) [0..<9])
            in if move \<noteq> - 1 then Some move else pick available 0))"

section \<open>The Room Repository (services/firebase.ts)\<close>

text \<open>
  The room document, as \<^verbatim>\<open>interface RoomData\<close> declares it; \<^verbatim>\<open>players.player1\<close> and
  \<^verbatim>\<open>players.player2\<close> are the fields \<open>player1\<close> and \<open>player2\<close>.
\<close>

record PlayerSlot =
  name :: string
  symbol :: PlayerSymbol
  joined :: bool

record RoomData =
  status :: GameStatus
  player1 :: PlayerSlot
  player2 :: PlayerSlot
  board :: "CellValue list"
  currentTurn :: PlayerSymbol
  winner :: "Outcome option"
  lastMoveTimestamp :: "int option"

text \<open>\<^verbatim>\<open>new Error("Database not initialized")\<close>, the spec's StorageUnavailable.\<close>

datatype error = DatabaseNotInitialized

text \<open>What \<^verbatim>\<open>subscribeToRoom\<close> returns: \<^verbatim>\<open>() => {}\<close> or the detach function of a listener.\<close>

datatype Unsubscribe = Inert | Detach nat

text \<open>
  Modelled from the spec: the shared document store (the Firebase Realtime Database
  behind \<^verbatim>\<open>get\<close>, \<^verbatim>\<open>set\<close>, \<^verbatim>\<open>update\<close>, \<^verbatim>\<open>onValue\<close> and \<^verbatim>\<open>onDisconnect\<close>) is an external
  collaborator; its section 6 describes a path-addressed tree
  \<^verbatim>\<open>rooms/{code}\<close> of room documents with point read, whole-subtree write, multi-path
  update, subscription and deferred on-disconnect writes. The model keeps the module
  variable \<^verbatim>\<open>db\<close> (\<open>False\<close> when initialisation failed), the documents under
  \<^verbatim>\<open>rooms/\<close> typed as \<open>RoomData\<close>, the deferred writes registered so far (room code and
  whether the path is \<^verbatim>\<open>player1/joined\<close>) and the attached listeners.
\<close>

record Firebase =
  db :: bool
  rooms :: "string \<rightharpoonup> RoomData"
  onDisconnect :: "(string \<times> bool) list"
  listeners :: "(nat \<times> string) list"
  nextListener :: nat

text \<open>
  One entry of the \<^verbatim>\<open>updates\<close> object handed to \<^verbatim>\<open>update(ref(db), updates)\<close>: a path
  below \<^verbatim>\<open>rooms/{code}\<close> with its value. \<open>W_joined True\<close> is the path
  \<^verbatim>\<open>players/player1/joined\<close>, \<open>W_joined False\<close> is \<^verbatim>\<open>players/player2/joined\<close>.
\<close>

datatype Write =
    W_board "CellValue list"
  | W_currentTurn PlayerSymbol
  | W_lastMoveTimestamp int
  | W_winner Outcome
  | W_status GameStatus
  | W_player2 PlayerSlot
  | W_joined bool bool

fun applyWrite :: "Write \<Rightarrow> RoomData \<Rightarrow> RoomData" where
  "applyWrite (W_board b) room = room\<lparr>board := b\<rparr>"
| "applyWrite (W_currentTurn t) room = room\<lparr>currentTurn := t\<rparr>"
| "applyWrite (W_lastMoveTimestamp n) room = room\<lparr>lastMoveTimestamp := Some n\<rparr>"
| "applyWrite (W_winner w) room = room\<lparr>winner := Some w\<rparr>"
| "applyWrite (W_status s) room = room\<lparr>status := s\<rparr>"
| "applyWrite (W_player2 p) room = room\<lparr>player2 := p\<rparr>"
| "applyWrite (W_joined isPlayer1 v) room =
     (if isPlayer1 then room\<lparr>player1 := (player1 room)\<lparr>joined := v\<rparr>\<rparr>
      else room\<lparr>player2 := (player2 room)\<lparr>joined := v\<rparr>\<rparr>)"

text \<open>
  Modelled from the spec: the store's multi-path update, all paths merged as one commit.
  \<open>update\<close> is the commit on the documents; the listeners the commit fires act on the
  component's state, which the store does not hold, and are run by \<open>fired\<close> below,
  from the store before and after the commit. The model holds typed documents only: a
  path below a room code that has no document would create a partial document in the
  store, which \<open>RoomData\<close> cannot hold, and the model leaves the store as it is there.
\<close>

definition update :: "Firebase \<Rightarrow> (string \<times> Write) list \<Rightarrow> Firebase" where
  "update fb updates =
     fb\<lparr>rooms :=
          foldl (\<lambda>m (code, w). case m code of None \<Rightarrow> m | Some room \<Rightarrow> m(code \<mapsto> applyWrite w room))
            (rooms fb) updates\<rparr>"

definition chars :: string where
  "chars = ''ABCDEFGHJKLMNPQRSTUVWXYZ23456789''"

text \<open>\<^verbatim>\<open>s.charAt(k)\<close>: the empty string outside the string.\<close>

definition charAt :: "string \<Rightarrow> int \<Rightarrow> string" where
  "charAt s k = (if 0 \<le> k \<and> k < int (length s) then [s ! nat k] else [])"

text \<open>
  \<^verbatim>\<open>generateRoomCode\<close>: four rounds of \<^verbatim>\<open>code += chars.charAt(Math.floor(Math.random() *
  chars.length))\<close>; \<open>rnd i\<close> is the value of the \<open>i\<close>-th call of \<^verbatim>\<open>Math.random()\<close>.
\<close>

definition generateRoomCode :: "(nat \<Rightarrow> real) \<Rightarrow> string" where
  "generateRoomCode rnd =
     foldl (\<lambda>code i. code @ charAt chars \<lfloor>rnd i * real (length chars)\<rfloor>) [] [0..<4]"

text \<open>
  The asynchronous operations return \<open>Inl\<close> for a rejected promise and \<open>Inr\<close> for a
  resolved one, with the store after the call. \<open>now\<close> is the value of \<^verbatim>\<open>Date.now()\<close>.
\<close>

definition initialData :: "string \<Rightarrow> int \<Rightarrow> RoomData" where
  "initialData playerName now =
     \<lparr>status = WAITING,
      player1 = \<lparr>name = playerName, symbol = SymX, joined = True\<rparr>,
      player2 = \<lparr>name = [], symbol = SymO, joined = False\<rparr>,
      board = EMPTY_BOARD,
      currentTurn = SymX,
      winner = None,
      lastMoveTimestamp = Some now\<rparr>"

definition createRoom :: "(nat \<Rightarrow> real) \<Rightarrow> int \<Rightarrow> Firebase \<Rightarrow> string \<Rightarrow> error + (string \<times> Firebase)" where
  "createRoom rnd now fb playerName =
     (if \<not> db fb then Inl DatabaseNotInitialized
      else (let code = generateRoomCode rnd
            in Inr (code,
                    fb\<lparr>rooms := (rooms fb)(code \<mapsto> initialData playerName now),
                       onDisconnect := onDisconnect fb @ [(code, True)]\<rparr>)))"

definition joinRoom :: "Firebase \<Rightarrow> string \<Rightarrow> string \<Rightarrow> error + (bool \<times> Firebase)" where
  "joinRoom fb code playerName =
     (if \<not> db fb then Inl DatabaseNotInitialized
      else (case rooms fb code of
              None \<Rightarrow> Inr (False, fb)
            | Some data \<Rightarrow>
                if joined (player2 data) then Inr (False, fb)
                else Inr (True,
                          (update fb
                             [(code, W_player2 \<lparr>name = playerName, symbol = SymO, joined = True\<rparr>),
                              (code, W_status PLAYING)])
                          \<lparr>onDisconnect := onDisconnect fb @ [(code, False)]\<rparr>)))"

definition subscribeToRoom :: "Firebase \<Rightarrow> string \<Rightarrow> Unsubscribe \<times> Firebase" where
  "subscribeToRoom fb code =
     (if \<not> db fb then (Inert, fb)
      else (Detach (nextListener fb),
            fb\<lparr>listeners := listeners fb @ [(nextListener fb, code)],
               nextListener := nextListener fb + 1\<rparr>))"

text \<open>Calling the returned function.\<close>

fun unsubscribe :: "Unsubscribe \<Rightarrow> Firebase \<Rightarrow> Firebase" where
  "unsubscribe Inert fb = fb"
| "unsubscribe (Detach k) fb = fb\<lparr>listeners := filter (\<lambda>l. fst l \<noteq> k) (listeners fb)\<rparr>"

text \<open>The \<^verbatim>\<open>updates\<close> object \<^verbatim>\<open>updateGameState\<close> builds; \<^verbatim>\<open>if (winner)\<close> adds two paths.\<close>

definition gameStateUpdates :: "int \<Rightarrow> string \<Rightarrow> CellValue list \<Rightarrow> PlayerSymbol \<Rightarrow> Outcome option \<Rightarrow> (string \<times> Write) list" where
  "gameStateUpdates now code b nextTurn w =
     [(code, W_board b), (code, W_currentTurn nextTurn), (code, W_lastMoveTimestamp now)] @
     (case w of None \<Rightarrow> [] | Some v \<Rightarrow> [(code, W_winner v), (code, W_status FINISHED)])"

definition updateGameState :: "int \<Rightarrow> Firebase \<Rightarrow> string \<Rightarrow> CellValue list \<Rightarrow> PlayerSymbol \<Rightarrow> Outcome option \<Rightarrow> error + Firebase" where
  "updateGameState now fb code b nextTurn w =
     (if \<not> db fb then Inr fb
      else Inr (update fb (gameStateUpdates now code b nextTurn w)))"

definition leaveRoom :: "Firebase \<Rightarrow> string \<Rightarrow> bool \<Rightarrow> error + Firebase" where
  "leaveRoom fb code isPlayer1 =
     (if \<not> db fb then Inr fb
      else Inr (update fb [(code, W_joined isPlayer1 False)]))"

section \<open>The Match Controller and the Room Synchronizer (the tic-tac-toe App component)\<close>

text \<open>
  The component's state: the \<^verbatim>\<open>useState\<close> cells the modelled handlers read or write, the
  ref \<^verbatim>\<open>hasTransitionedToGameRef\<close>, and three logs of what the handlers emit: the sounds
  played, the alerts shown and the number of lobby-to-game timers armed with
  \<^verbatim>\<open>setTimeout\<close> and not yet run (\<open>timers\<close>).
\<close>

record AppState =
  view :: View
  gameMode :: GameMode
  soundEnabled :: bool
  board :: "CellValue list"
  currentTurn :: PlayerSymbol
  winner :: "Outcome option"
  winningLine :: "nat list option"
  player1Name :: string
  player2Name :: string
  roomCode :: string
  mySymbol :: "PlayerSymbol option"
  opponentConnected :: bool
  isProcessing :: bool
  errorMsg :: string
  hasTransitionedToGameRef :: bool
  timers :: nat
  sounds :: "string list"
  alerts :: "string list"

definition playSound :: "string \<Rightarrow> AppState \<Rightarrow> AppState" where
  "playSound type app = app\<lparr>sounds := sounds app @ [type]\<rparr>"

definition resetBoard :: "AppState \<Rightarrow> AppState" where
  "resetBoard app = app\<lparr>board := EMPTY_BOARD, currentTurn := SymX, winner := None, winningLine := None\<rparr>"

text \<open>\<^verbatim>\<open>currentTurn === 'X' ? 'O' : 'X'\<close>\<close>

definition nextTurnOf :: "PlayerSymbol \<Rightarrow> PlayerSymbol" where
  "nextTurnOf t = (if t = SymX then SymO else SymX)"

text \<open>
  The callback the subscription effect hands to \<^verbatim>\<open>subscribeToRoom\<close>, run on one snapshot
  \<open>data\<close>. \<^verbatim>\<open>data.board || EMPTY_BOARD\<close> is \<^verbatim>\<open>data.board\<close> for every value of the declared
  type (an array is truthy). The \<^verbatim>\<open>setTimeout\<close> of the transition adds one to \<open>timers\<close>.
\<close>

definition roomCallback :: "AppState \<Rightarrow> RoomData \<Rightarrow> AppState" where
  "roomCallback app data =
     (let isP1 = (mySymbol app = Some SymX);
          opponent = (if isP1 then player2 data else player1 data);
          me = (if isP1 then player1 data else player2 data);
          app1 = app\<lparr>board := RoomData.board data,
                     currentTurn := RoomData.currentTurn data,
                     opponentConnected := joined opponent\<rparr>;
          app2 = (if isP1
                  then app1\<lparr>player2Name := (if joined opponent then name opponent else ''Waiting...'')\<rparr>
                  else app1\<lparr>player1Name := name (player1 data), player2Name := name me\<rparr>);
          app3 = (case RoomData.winner data of
                    Some w \<Rightarrow>
                      if w \<noteq> Draw
                      then (case scanCombos (RoomData.board data) WINNING_COMBINATIONS of
                              Some (s, combo) \<Rightarrow> app2\<lparr>winner := Some w, winningLine := Some combo\<rparr>
                            | None \<Rightarrow> app2\<lparr>winner := Some w\<rparr>)
                      else app2\<lparr>winner := Some w, winningLine := None\<rparr>
                  | None \<Rightarrow> app2\<lparr>winner := None, winningLine := None\<rparr>);
          app4 = (if \<not> hasTransitionedToGameRef app3 \<and> joined (player2 data)
                  then app3\<lparr>hasTransitionedToGameRef := True, timers := timers app3 + 1\<rparr>
                  else app3)
      in app4\<lparr>errorMsg :=
                 (if RoomData.winner data \<noteq> None then []
                  else if \<not> joined opponent then ''Opponent disconnected''
                  else [])\<rparr>)"

text \<open>The armed timer running: \<^verbatim>\<open>setView(v => v === 'LOBBY' ? 'GAME' : v)\<close>.\<close>

definition transitionTimer :: "AppState \<Rightarrow> AppState" where
  "transitionTimer app =
     (if timers app = 0 then app
      else app\<lparr>timers := timers app - 1,
               view := (if view app = LOBBY then GAME else view app)\<rparr>)"

text \<open>
  The listener of \<^verbatim>\<open>subscribeToRoom\<close>, run when the room changes:
  \<^verbatim>\<open>const data = snapshot.val(); if (data) callback(data)\<close>.
\<close>

definition roomListener :: "Firebase \<Rightarrow> string \<Rightarrow> AppState \<Rightarrow> AppState" where
  "roomListener fb code app =
     (case rooms fb code of None \<Rightarrow> app | Some data \<Rightarrow> roomCallback app data)"

text \<open>A subscription's lifetime: the callback run on the snapshots delivered, in order.\<close>

definition deliver :: "AppState \<Rightarrow> RoomData list \<Rightarrow> AppState" where
  "deliver app snapshots = foldl roomCallback app snapshots"

text \<open>
  Modelled from the spec: a listener attached with \<^verbatim>\<open>subscribeToRoom\<close> fires on every
  change to its room, with the full current document. A write of this client changes
  the documents at once and its listeners run during the write, before the write's
  promise resolves. \<open>fired fb fb'\<close> runs the listeners attached in \<open>fb\<close>, in the order
  they were attached, on each room whose document differs between \<open>fb\<close> and \<open>fb'\<close>.
  The component registers one callback only, \<open>roomCallback\<close>, which \<open>roomListener\<close>
  wraps.
\<close>

definition fired :: "Firebase \<Rightarrow> Firebase \<Rightarrow> AppState \<Rightarrow> AppState" where
  "fired fb fb' app =
     foldl (\<lambda>a l. if rooms fb' (snd l) = rooms fb (snd l) then a
                    else roomListener fb' (snd l) a)
       app (listeners fb)"

text \<open>
  \<^verbatim>\<open>handleMove\<close> of the tic-tac-toe component. The state is the component's and the
  store's. In online mode the handler itself sets no local state: it awaits
  \<^verbatim>\<open>updateGameState\<close>, whose write fires the attached listeners, and only logs after
  the await, so the state at its return is the state before the push resolves. A
  rejected \<^verbatim>\<open>await updateGameState(...)\<close> would end the handler there; its callers do
  not await it, so the state is what matters. \<open>index\<close> is a cell index (the board's
  squares call it with \<open>0..8\<close>, the AI effect with the result of \<^verbatim>\<open>getBestMove\<close> when
  that is not \<open>-1\<close>).
\<close>

definition handleMove :: "int \<Rightarrow> AppState \<times> Firebase \<Rightarrow> nat \<Rightarrow> AppState \<times> Firebase" where
  "handleMove now st index =
     (let app = fst st; fb = snd st in
      if truthy (cellAt (board app) index) \<or> winner app \<noteq> None then st
      else if gameMode app = ONLINE \<and> Some (currentTurn app) \<noteq> mySymbol app then st
      else if gameMode app = ONLINE \<and> \<not> opponentConnected app then st
      else
        (let app1 = (if soundEnabled app then playSound ''move'' app else app);
             newBoard = setCell (board app) index (Mark (currentTurn app));
             result = checkGameStatus newBoard;
             nextTurn = nextTurnOf (currentTurn app)
         in if gameMode app = ONLINE
            then (case updateGameState now fb (roomCode app) newBoard nextTurn (map_option fst result) of
                    Inl e \<Rightarrow> (app1, fb)
                  | Inr fb' \<Rightarrow> (fired fb fb' app1, fb'))
            else (case result of
                    Some (w, line) \<Rightarrow> (app1\<lparr>board := newBoard, winner := Some w, winningLine := line\<rparr>, fb)
                  | None \<Rightarrow> (app1\<lparr>board := newBoard, currentTurn := nextTurn\<rparr>, fb))))"

text \<open>
  \<^verbatim>\<open>handleCreateRoom\<close>; \<^verbatim>\<open>player1Name || 'Player 1'\<close> takes the default for the empty
  string, and the \<^verbatim>\<open>catch\<close> shows an alert. The write of \<^verbatim>\<open>createRoom\<close> fires the
  listeners attached at that moment before the handler goes on.
\<close>

definition handleCreateRoom :: "(nat \<Rightarrow> real) \<Rightarrow> int \<Rightarrow> AppState \<times> Firebase \<Rightarrow> AppState \<times> Firebase" where
  "handleCreateRoom rnd now st =
     (let app = fst st; fb = snd st;
          playerName = (if player1Name app = [] then ''Player 1'' else player1Name app)
      in case createRoom rnd now fb playerName of
           Inr (code, fb') \<Rightarrow>
             ((resetBoard ((fired fb fb' app)\<lparr>roomCode := code, mySymbol := Some SymX, gameMode := ONLINE,
                                player2Name := ''Waiting...''\<rparr>))
                \<lparr>hasTransitionedToGameRef := False, view := LOBBY, isProcessing := False\<rparr>,
              fb')
         | Inl e \<Rightarrow>
             (app\<lparr>alerts := alerts app @ [''Error creating room. Check connection.''],
                  isProcessing := False\<rparr>, fb))"

section \<open>Properties\<close>

text \<open>
  A combination is won by \<open>s\<close> on a board when each of its cells holds the mark \<open>s\<close>;
  a board as the controller keeps it has nine cells, each \<^verbatim>\<open>null\<close> or a mark.
\<close>

definition lineOf :: "CellValue list \<Rightarrow> nat list \<Rightarrow> PlayerSymbol \<Rightarrow> bool" where
  "lineOf b combo s = (\<forall>i\<in>set combo. cellAt b i = Mark s)"

definition wellFormed :: "CellValue list \<Rightarrow> bool" where
  "wellFormed b = (length b = 9 \<and> Undefined \<notin> set b)"

text \<open>
  Concrete states: the component as its \<^verbatim>\<open>useState\<close> calls initialise it, a store
  without rooms, a store with the room \<^verbatim>\<open>ABCD\<close> as \<^verbatim>\<open>createRoom\<close> writes it, and the same
  room after a second player joined.
\<close>

definition initialApp :: AppState where
  "initialApp =
     \<lparr>view = LANDING, gameMode = SINGLE, soundEnabled = True, board = EMPTY_BOARD,
      currentTurn = SymX, winner = None, winningLine = None,
      player1Name = ''Player 1'', player2Name = ''Player 2'', roomCode = [],
      mySymbol = None, opponentConnected = False, isProcessing = False, errorMsg = [],
      hasTransitionedToGameRef = False, timers = 0, sounds = [], alerts = []\<rparr>"

definition emptyStore :: "bool \<Rightarrow> Firebase" where
  "emptyStore ok = \<lparr>db = ok, rooms = Map.empty, onDisconnect = [], listeners = [], nextListener = 0\<rparr>"

definition waitingRoom :: RoomData where
  "waitingRoom = initialData ''Ann'' 0"

definition playingRoom :: RoomData where
  "playingRoom = waitingRoom\<lparr>player2 := \<lparr>name = ''Bob'', symbol = SymO, joined = True\<rparr>, status := PLAYING\<rparr>"

definition storeWith :: "RoomData \<Rightarrow> Firebase" where
  "storeWith room = (emptyStore True)\<lparr>rooms := [''ABCD'' \<mapsto> room]\<rparr>"

subsection \<open>Helper lemmas\<close>

lemma update_Cons:
  "update fb ((code, w) # ups) =
     update (fb\<lparr>rooms := (case rooms fb code of None \<Rightarrow> rooms fb
                            | Some room \<Rightarrow> (rooms fb)(code \<mapsto> applyWrite w room))\<rparr>) ups"
  by (simp add: update_def)

lemma update_Nil: "update fb [] = fb"
  by (simp add: update_def)

lemma updateGameState_written:
  assumes "db fb" and "rooms fb code = Some room"
  shows "updateGameState now fb code b nextTurn w =
           Inr (fb\<lparr>rooms := (rooms fb)(code \<mapsto>
                  room\<lparr>RoomData.board := b, RoomData.currentTurn := nextTurn,
                       lastMoveTimestamp := Some now,
                       RoomData.winner := (case w of None \<Rightarrow> RoomData.winner room | Some v \<Rightarrow> Some v),
                       status := (case w of None \<Rightarrow> status room | Some v \<Rightarrow> FINISHED)\<rparr>)\<rparr>)"
  using assms
  by (cases w) (simp_all add: updateGameState_def gameStateUpdates_def update_Cons update_Nil)

lemma setCell_inrange: "i < length b \<Longrightarrow> setCell b i v = b[i := v]"
  by (simp add: setCell_def)

lemma triple: "length combo = 3 \<Longrightarrow> \<exists>x y z. combo = [x, y, z]"
  by (cases combo; simp; rename_tac a as; case_tac as; simp; rename_tac a2 as2; case_tac as2; simp)

lemma scanCombos_hit:
  assumes "length combo = 3" and "lineOf b combo s"
  shows "scanCombos b (combo # rest) = Some (s, combo)"
proof -
  from triple [OF assms(1)] obtain x y z where c: "combo = [x, y, z]" by blast
  from assms(2) have "cellAt b x = Mark s" "cellAt b y = Mark s" "cellAt b z = Mark s"
    by (simp_all add: c lineOf_def)
  then show ?thesis by (simp add: c)
qed

lemma scanCombos_miss:
  assumes "length combo = 3" and "\<forall>s. \<not> lineOf b combo s"
  shows "scanCombos b (combo # rest) = scanCombos b rest"
proof -
  from triple [OF assms(1)] obtain x y z where c: "combo = [x, y, z]" by blast
  show ?thesis
  proof (cases "cellAt b x")
    case (Mark s)
    with assms(2) have "\<not> (cellAt b y = Mark s \<and> cellAt b z = Mark s)"
      by (auto simp: c lineOf_def)
    then show ?thesis using Mark by (auto simp: c)
  qed (simp_all add: c)
qed

lemma scanCombos_first:
  assumes "\<forall>c\<in>set cs. length c = 3" and "k < length cs" and "lineOf b (cs ! k) s"
    and "\<forall>j<k. \<forall>s'. \<not> lineOf b (cs ! j) s'"
  shows "scanCombos b cs = Some (s, cs ! k)"
  using assms
proof (induction cs arbitrary: k)
  case Nil
  then show ?case by simp
next
  case (Cons c cs)
  have len: "length c = 3" using Cons.prems(1) by simp
  show ?case
  proof (cases k)
    case 0
    then have l: "lineOf b c s" using Cons.prems(3) by simp
    show ?thesis using scanCombos_hit [OF len l] 0 by simp
  next
    case (Suc k')
    have no: "\<forall>s'. \<not> lineOf b c s'" using Cons.prems(4) Suc by force
    have "scanCombos b cs = Some (s, cs ! k')"
    proof (rule Cons.IH)
      show "\<forall>c\<in>set cs. length c = 3" using Cons.prems(1) by simp
      show "k' < length cs" using Cons.prems(2) Suc by simp
      show "lineOf b (cs ! k') s" using Cons.prems(3) Suc by simp
      show "\<forall>j<k'. \<forall>s'. \<not> lineOf b (cs ! j) s'"
        using Cons.prems(4) Suc by force
    qed
    then show ?thesis using scanCombos_miss [OF len no] Suc by simp
  qed
qed

lemma scanCombos_none:
  assumes "\<forall>c\<in>set cs. length c = 3" and "\<forall>k<length cs. \<forall>s. \<not> lineOf b (cs ! k) s"
  shows "scanCombos b cs = None"
  using assms
proof (induction cs)
  case Nil
  then show ?case by simp
next
  case (Cons c cs)
  have len: "length c = 3" using Cons.prems(1) by simp
  have no: "\<forall>s'. \<not> lineOf b c s'" using Cons.prems(2) by force
  have "scanCombos b cs = None"
  proof (rule Cons.IH)
    show "\<forall>c\<in>set cs. length c = 3" using Cons.prems(1) by simp
    show "\<forall>k<length cs. \<forall>s. \<not> lineOf b (cs ! k) s" using Cons.prems(2) by force
  qed
  then show ?case using scanCombos_miss [OF len no] by simp
qed

lemma combos_triples: "\<forall>c\<in>set WINNING_COMBINATIONS. length c = 3"
  by (simp add: WINNING_COMBINATIONS_def)

lemma combos_length: "length WINNING_COMBINATIONS = 8"
  by (simp add: WINNING_COMBINATIONS_def)

lemma checkGameStatus_win:
  assumes "k < 8" and "lineOf b (WINNING_COMBINATIONS ! k) s"
    and "\<forall>j<k. \<forall>s'. \<not> lineOf b (WINNING_COMBINATIONS ! j) s'"
  shows "checkGameStatus b = Some (Sym s, Some (WINNING_COMBINATIONS ! k))"
  using scanCombos_first [OF combos_triples _ assms(2) assms(3)] assms(1)
  by (simp add: checkGameStatus_def combos_length)

lemma checkGameStatus_nowin:
  assumes "\<forall>k<8. \<forall>s. \<not> lineOf b (WINNING_COMBINATIONS ! k) s"
  shows "checkGameStatus b = (if Null \<notin> set b then Some (Draw, None) else None)"
  using scanCombos_none [OF combos_triples, of b] assms
  by (simp add: checkGameStatus_def combos_length)

lemma occupied_iff:
  assumes "length b = 9" and "Undefined \<notin> set b"
  shows "(\<forall>i<9. truthy (cellAt b i)) = (Null \<notin> set b)"
proof
  assume a: "\<forall>i<9. truthy (cellAt b i)"
  show "Null \<notin> set b"
  proof
    assume "Null \<in> set b"
    then obtain i where "i < length b" "b ! i = Null" by (auto simp: in_set_conv_nth)
    then show False using a assms(1) by (auto simp: cellAt_def)
  qed
next
  assume n: "Null \<notin> set b"
  show "\<forall>i<9. truthy (cellAt b i)"
  proof (intro allI impI)
    fix i :: nat assume "i < 9"
    then have "b ! i \<in> set b" using assms(1) by simp
    then have "b ! i \<noteq> Null" "b ! i \<noteq> Undefined" using n assms(2) by auto
    then show "truthy (cellAt b i)" using \<open>i < 9\<close> assms(1)
      by (cases "b ! i") (auto simp: cellAt_def)
  qed
qed

lemma handleMove_local:
  assumes "\<not> truthy (cellAt (board app) index)" and "winner app = None" and "gameMode app \<noteq> ONLINE"
  shows "fst (handleMove now (app, fb) index) =
           (case checkGameStatus (setCell (board app) index (Mark (currentTurn app))) of
              Some (w, line) \<Rightarrow>
                (if soundEnabled app then playSound ''move'' app else app)
                  \<lparr>board := setCell (board app) index (Mark (currentTurn app)),
                   winner := Some w, winningLine := line\<rparr>
            | None \<Rightarrow>
                (if soundEnabled app then playSound ''move'' app else app)
                  \<lparr>board := setCell (board app) index (Mark (currentTurn app)),
                   currentTurn := nextTurnOf (currentTurn app)\<rparr>)"
  using assms by (auto simp: handleMove_def Let_def split: option.splits)

lemma roomCallback_latch:
  "timers (roomCallback a d) =
     timers a + (if \<not> hasTransitionedToGameRef a \<and> joined (player2 d) then 1 else 0)
   \<and> hasTransitionedToGameRef (roomCallback a d) =
       (hasTransitionedToGameRef a \<or> joined (player2 d))"
  by (auto simp: roomCallback_def Let_def split: option.splits)

lemma deliver_latch:
  "timers (deliver a ds) =
     timers a + (if \<not> hasTransitionedToGameRef a \<and> (\<exists>d\<in>set ds. joined (player2 d)) then 1 else 0)
   \<and> hasTransitionedToGameRef (deliver a ds) =
       (hasTransitionedToGameRef a \<or> (\<exists>d\<in>set ds. joined (player2 d)))"
  unfolding deliver_def
proof (induction ds arbitrary: a)
  case Nil
  then show ?case by simp
next
  case (Cons d ds)
  show ?case
    using Cons.IH [of "roomCallback a d"] roomCallback_latch [of a d]
    by auto
qed

lemma deliver_view: "view (deliver a ds) = view a"
  unfolding deliver_def
proof (induction ds arbitrary: a)
  case Nil
  then show ?case by simp
next
  case (Cons d ds)
  have "view (roomCallback a d) = view a"
    by (auto simp: roomCallback_def Let_def split: option.splits)
  then show ?case using Cons.IH [of "roomCallback a d"] by simp
qed

subsection \<open>Claims\<close>

text \<open>
  C1. A move places the mover's symbol in an empty cell of a nine-cell board. On the new
  board \<open>nb\<close> the evaluation takes the first of the eight combinations, in their fixed
  order, that one symbol holds entirely: that symbol wins and the winning line is that
  combination. With no such combination and every cell occupied the result is a draw.
  Otherwise there is no result, the match stays in progress and the turn passes to the
  other symbol. In the local modes the component's board, winner, line and turn are
  set accordingly.
\<close>

theorem terminal_evaluation:
  assumes wf: "wellFormed (board app)" and idx: "index < 9"
    and empty: "cellAt (board app) index = Null"
    and live: "winner app = None"
    and nb: "nb = (board app)[index := Mark (currentTurn app)]"
    and app': "app' = fst (handleMove now (app, fb) index)"
  shows "(\<forall>k<8. \<forall>s. lineOf nb (WINNING_COMBINATIONS ! k) s
                  \<and> (\<forall>j<k. \<forall>s'. \<not> lineOf nb (WINNING_COMBINATIONS ! j) s') \<longrightarrow>
             checkGameStatus nb = Some (Sym s, Some (WINNING_COMBINATIONS ! k))
             \<and> (gameMode app \<noteq> ONLINE \<longrightarrow>
                  board app' = nb \<and> winner app' = Some (Sym s)
                  \<and> winningLine app' = Some (WINNING_COMBINATIONS ! k)))
       \<and> ((\<forall>k<8. \<forall>s. \<not> lineOf nb (WINNING_COMBINATIONS ! k) s) \<and> (\<forall>i<9. truthy (cellAt nb i)) \<longrightarrow>
             checkGameStatus nb = Some (Draw, None)
             \<and> (gameMode app \<noteq> ONLINE \<longrightarrow>
                  board app' = nb \<and> winner app' = Some Draw \<and> winningLine app' = None))
       \<and> ((\<forall>k<8. \<forall>s. \<not> lineOf nb (WINNING_COMBINATIONS ! k) s) \<and> \<not> (\<forall>i<9. truthy (cellAt nb i)) \<longrightarrow>
             checkGameStatus nb = None
             \<and> (gameMode app \<noteq> ONLINE \<longrightarrow>
                  board app' = nb \<and> winner app' = None
                  \<and> currentTurn app' = nextTurnOf (currentTurn app)
                  \<and> currentTurn app' \<noteq> currentTurn app))"
proof -
  have len: "length (board app) = 9" and ud: "Undefined \<notin> set (board app)"
    using wf by (simp_all add: wellFormed_def)
  have sc: "setCell (board app) index (Mark (currentTurn app)) = nb"
    using idx len nb by (simp add: setCell_inrange)
  have nt: "\<not> truthy (cellAt (board app) index)" using empty by simp
  have nblen: "length nb = 9" using nb len by simp
  have "set nb \<subseteq> insert (Mark (currentTurn app)) (set (board app))"
    unfolding nb by (rule set_update_subset_insert)
  then have nbud: "Undefined \<notin> set nb" using ud by auto
  have occ: "(\<forall>i<9. truthy (cellAt nb i)) = (Null \<notin> set nb)"
    by (rule occupied_iff [OF nblen nbud])
  have loc: "gameMode app \<noteq> ONLINE \<Longrightarrow>
      app' = (case checkGameStatus nb of
                Some (w, line) \<Rightarrow>
                  (if soundEnabled app then playSound ''move'' app else app)
                    \<lparr>board := nb, winner := Some w, winningLine := line\<rparr>
              | None \<Rightarrow>
                  (if soundEnabled app then playSound ''move'' app else app)
                    \<lparr>board := nb, currentTurn := nextTurnOf (currentTurn app)\<rparr>)"
    using handleMove_local [OF nt live, of now fb] unfolding sc app' by simp
  have win: "\<forall>k<8. \<forall>s. lineOf nb (WINNING_COMBINATIONS ! k) s
                  \<and> (\<forall>j<k. \<forall>s'. \<not> lineOf nb (WINNING_COMBINATIONS ! j) s') \<longrightarrow>
             checkGameStatus nb = Some (Sym s, Some (WINNING_COMBINATIONS ! k))
             \<and> (gameMode app \<noteq> ONLINE \<longrightarrow>
                  board app' = nb \<and> winner app' = Some (Sym s)
                  \<and> winningLine app' = Some (WINNING_COMBINATIONS ! k))"
  proof (intro allI impI)
    fix k s
    assume k: "k < 8"
      and h: "lineOf nb (WINNING_COMBINATIONS ! k) s
              \<and> (\<forall>j<k. \<forall>s'. \<not> lineOf nb (WINNING_COMBINATIONS ! j) s')"
    have c: "checkGameStatus nb = Some (Sym s, Some (WINNING_COMBINATIONS ! k))"
      using checkGameStatus_win [OF k] h by blast
    show "checkGameStatus nb = Some (Sym s, Some (WINNING_COMBINATIONS ! k))
             \<and> (gameMode app \<noteq> ONLINE \<longrightarrow>
                  board app' = nb \<and> winner app' = Some (Sym s)
                  \<and> winningLine app' = Some (WINNING_COMBINATIONS ! k))"
      using c loc by (simp add: playSound_def)
  qed
  have draw: "(\<forall>k<8. \<forall>s. \<not> lineOf nb (WINNING_COMBINATIONS ! k) s) \<and> (\<forall>i<9. truthy (cellAt nb i)) \<longrightarrow>
             checkGameStatus nb = Some (Draw, None)
             \<and> (gameMode app \<noteq> ONLINE \<longrightarrow>
                  board app' = nb \<and> winner app' = Some Draw \<and> winningLine app' = None)"
  proof
    assume h: "(\<forall>k<8. \<forall>s. \<not> lineOf nb (WINNING_COMBINATIONS ! k) s) \<and> (\<forall>i<9. truthy (cellAt nb i))"
    then have c: "checkGameStatus nb = Some (Draw, None)"
      using checkGameStatus_nowin [of nb] occ by simp
    show "checkGameStatus nb = Some (Draw, None)
             \<and> (gameMode app \<noteq> ONLINE \<longrightarrow>
                  board app' = nb \<and> winner app' = Some Draw \<and> winningLine app' = None)"
      using c loc by (simp add: playSound_def)
  qed
  have cont: "(\<forall>k<8. \<forall>s. \<not> lineOf nb (WINNING_COMBINATIONS ! k) s) \<and> \<not> (\<forall>i<9. truthy (cellAt nb i)) \<longrightarrow>
             checkGameStatus nb = None
             \<and> (gameMode app \<noteq> ONLINE \<longrightarrow>
                  board app' = nb \<and> winner app' = None
                  \<and> currentTurn app' = nextTurnOf (currentTurn app)
                  \<and> currentTurn app' \<noteq> currentTurn app)"
  proof
    assume h: "(\<forall>k<8. \<forall>s. \<not> lineOf nb (WINNING_COMBINATIONS ! k) s) \<and> \<not> (\<forall>i<9. truthy (cellAt nb i))"
    then have c: "checkGameStatus nb = None"
      using checkGameStatus_nowin [of nb] occ by simp
    show "checkGameStatus nb = None
             \<and> (gameMode app \<noteq> ONLINE \<longrightarrow>
                  board app' = nb \<and> winner app' = None
                  \<and> currentTurn app' = nextTurnOf (currentTurn app)
                  \<and> currentTurn app' \<noteq> currentTurn app)"
      using c loc live by (simp add: playSound_def nextTurnOf_def)
  qed
  show ?thesis using win draw cont by blast
qed

definition rowApp :: AppState where
  "rowApp = initialApp\<lparr>board := [Mark SymX, Mark SymX, Null, Mark SymO, Mark SymO, Null, Null, Null, Null]\<rparr>"

theorem terminal_evaluation_witness:
  "wellFormed (board rowApp) \<and> cellAt (board rowApp) 2 = Null \<and> winner rowApp = None
   \<and> checkGameStatus ((board rowApp)[2 := Mark SymX]) = Some (Sym SymX, Some [0, 1, 2])
   \<and> winner (fst (handleMove 0 (rowApp, emptyStore True) 2)) = Some (Sym SymX)
   \<and> winningLine (fst (handleMove 0 (rowApp, emptyStore True) 2)) = Some [0, 1, 2]"
proof -
  have wf: "wellFormed (board rowApp)"
    by (simp add: rowApp_def initialApp_def wellFormed_def)
  have e: "cellAt (board rowApp) 2 = Null"
    by (simp add: rowApp_def initialApp_def cellAt_def)
  have l: "winner rowApp = None"
    by (simp add: rowApp_def initialApp_def)
  have nb: "(board rowApp)[2 := Mark SymX] = (board rowApp)[2 := Mark (currentTurn rowApp)]"
    by (simp add: rowApp_def initialApp_def)
  have line: "lineOf ((board rowApp)[2 := Mark SymX]) (WINNING_COMBINATIONS ! 0) SymX"
    by (simp add: rowApp_def initialApp_def lineOf_def WINNING_COMBINATIONS_def cellAt_def)
  have m: "gameMode rowApp \<noteq> ONLINE"
    by (simp add: rowApp_def initialApp_def)
  have w0: "WINNING_COMBINATIONS ! 0 = [0, 1, 2]"
    by (simp add: WINNING_COMBINATIONS_def)
  have first: "lineOf ((board rowApp)[2 := Mark SymX]) (WINNING_COMBINATIONS ! 0) SymX
               \<and> (\<forall>j<0. \<forall>s'. \<not> lineOf ((board rowApp)[2 := Mark SymX]) (WINNING_COMBINATIONS ! j) s')"
    using line by simp
  have lt: "(0::nat) < 8" by simp
  have i: "(2::nat) < 9" by simp
  note t = terminal_evaluation [OF wf i e l nb refl, of 0 "emptyStore True"]
  from conjunct1 [OF t] first m lt
  have "checkGameStatus ((board rowApp)[2 := Mark SymX]) = Some (Sym SymX, Some (WINNING_COMBINATIONS ! 0))
        \<and> winner (fst (handleMove 0 (rowApp, emptyStore True) 2)) = Some (Sym SymX)
        \<and> winningLine (fst (handleMove 0 (rowApp, emptyStore True) 2)) = Some (WINNING_COMBINATIONS ! 0)"
    by blast
  then show ?thesis using wf e l by (simp add: w0)
qed

text \<open>
  C2. \<^verbatim>\<open>handleMove\<close> returns the component state and the store exactly as they were
  (no local change, no sound, no write) when the target cell is occupied, when a
  winner is set, when in online mode the client's symbol is not \<^verbatim>\<open>currentTurn\<close>, and
  when in online mode the opponent is not connected.
\<close>

theorem handleMove_rejects:
  assumes "truthy (cellAt (board app) index) \<or> winner app \<noteq> None
           \<or> (gameMode app = ONLINE \<and> mySymbol app \<noteq> Some (currentTurn app))
           \<or> (gameMode app = ONLINE \<and> \<not> opponentConnected app)"
  shows "handleMove now (app, fb) index = (app, fb)"
  using assms by (auto simp: handleMove_def Let_def)

theorem handleMove_rejects_witness:
  "truthy (cellAt (board rowApp) 0)
   \<and> handleMove 0 (rowApp, emptyStore True) 0 = (rowApp, emptyStore True)
   \<and> winner (initialApp\<lparr>winner := Some Draw\<rparr>) \<noteq> None
   \<and> handleMove 0 (initialApp\<lparr>winner := Some Draw\<rparr>, emptyStore True) 4
       = (initialApp\<lparr>winner := Some Draw\<rparr>, emptyStore True)
   \<and> mySymbol (initialApp\<lparr>gameMode := ONLINE, mySymbol := Some SymO\<rparr>)
       \<noteq> Some (currentTurn (initialApp\<lparr>gameMode := ONLINE, mySymbol := Some SymO\<rparr>))
   \<and> handleMove 0 (initialApp\<lparr>gameMode := ONLINE, mySymbol := Some SymO\<rparr>, storeWith playingRoom) 4
       = (initialApp\<lparr>gameMode := ONLINE, mySymbol := Some SymO\<rparr>, storeWith playingRoom)
   \<and> \<not> opponentConnected (initialApp\<lparr>gameMode := ONLINE, mySymbol := Some SymX\<rparr>)
   \<and> handleMove 0 (initialApp\<lparr>gameMode := ONLINE, mySymbol := Some SymX\<rparr>, storeWith waitingRoom) 4
       = (initialApp\<lparr>gameMode := ONLINE, mySymbol := Some SymX\<rparr>, storeWith waitingRoom)"
proof -
  have h1: "truthy (cellAt (board rowApp) 0)"
    by (simp add: rowApp_def initialApp_def cellAt_def)
  have h2: "winner (initialApp\<lparr>winner := Some Draw\<rparr>) \<noteq> None"
    by simp
  have h3: "gameMode (initialApp\<lparr>gameMode := ONLINE, mySymbol := Some SymO\<rparr>) = ONLINE
            \<and> mySymbol (initialApp\<lparr>gameMode := ONLINE, mySymbol := Some SymO\<rparr>)
               \<noteq> Some (currentTurn (initialApp\<lparr>gameMode := ONLINE, mySymbol := Some SymO\<rparr>))"
    by (simp add: initialApp_def)
  have h4: "gameMode (initialApp\<lparr>gameMode := ONLINE, mySymbol := Some SymX\<rparr>) = ONLINE
            \<and> \<not> opponentConnected (initialApp\<lparr>gameMode := ONLINE, mySymbol := Some SymX\<rparr>)"
    by (simp add: initialApp_def)
  show ?thesis
    using h1 h2 h3 h4
      handleMove_rejects [of rowApp 0 0 "emptyStore True"]
      handleMove_rejects [of "initialApp\<lparr>winner := Some Draw\<rparr>" 4 0 "emptyStore True"]
      handleMove_rejects [of "initialApp\<lparr>gameMode := ONLINE, mySymbol := Some SymO\<rparr>" 4 0 "storeWith playingRoom"]
      handleMove_rejects [of "initialApp\<lparr>gameMode := ONLINE, mySymbol := Some SymX\<rparr>" 4 0 "storeWith waitingRoom"]
    by blast
qed

text \<open>
  C3. With the store initialised, \<^verbatim>\<open>joinRoom\<close> resolves to \<^verbatim>\<open>false\<close> and leaves the store
  as it was (no write to the room, no deferred write registered) when the room code has
  no document and when the room's \<^verbatim>\<open>player2.joined\<close> is already true; otherwise it
  writes \<^verbatim>\<open>player2 = {name, symbol O, joined true}\<close> and \<^verbatim>\<open>status = PLAYING\<close> in one
  update, registers the deferred write for \<^verbatim>\<open>player2/joined\<close> and resolves to
  \<^verbatim>\<open>true\<close>. The two copies of the service in the repository differ only in logging.
\<close>

theorem joinRoom_contract:
  assumes "db fb"
  shows "(rooms fb code = None \<longrightarrow> joinRoom fb code playerName = Inr (False, fb))
       \<and> (\<forall>data. rooms fb code = Some data \<and> joined (player2 data) \<longrightarrow>
             joinRoom fb code playerName = Inr (False, fb))
       \<and> (\<forall>data. rooms fb code = Some data \<and> \<not> joined (player2 data) \<longrightarrow>
             joinRoom fb code playerName =
               Inr (True,
                    fb\<lparr>rooms := (rooms fb)(code \<mapsto>
                                   data\<lparr>player2 := \<lparr>name = playerName, symbol = SymO, joined = True\<rparr>,
                                        status := PLAYING\<rparr>),
                       onDisconnect := onDisconnect fb @ [(code, False)]\<rparr>))"
  using assms by (auto simp: joinRoom_def update_Cons update_Nil)

theorem joinRoom_contract_witness:
  "db (storeWith playingRoom)
   \<and> joinRoom (storeWith playingRoom) ''ZZZZ'' ''Bob'' = Inr (False, storeWith playingRoom)
   \<and> joinRoom (storeWith playingRoom) ''ABCD'' ''Eve'' = Inr (False, storeWith playingRoom)
   \<and> (case joinRoom (storeWith waitingRoom) ''ABCD'' ''Bob'' of
         Inl e \<Rightarrow> False
       | Inr (ok, fb') \<Rightarrow> ok \<and> rooms fb' ''ABCD'' = Some playingRoom)"
proof -
  have d: "db (storeWith playingRoom)" "db (storeWith waitingRoom)"
    by (simp_all add: storeWith_def emptyStore_def)
  have missing: "rooms (storeWith playingRoom) ''ZZZZ'' = None"
    by (simp add: storeWith_def emptyStore_def)
  have full: "rooms (storeWith playingRoom) ''ABCD'' = Some playingRoom \<and> joined (player2 playingRoom)"
    by (simp add: storeWith_def emptyStore_def playingRoom_def)
  have free: "rooms (storeWith waitingRoom) ''ABCD'' = Some waitingRoom \<and> \<not> joined (player2 waitingRoom)"
    by (simp add: storeWith_def emptyStore_def waitingRoom_def initialData_def)
  have a: "joinRoom (storeWith playingRoom) ''ZZZZ'' ''Bob'' = Inr (False, storeWith playingRoom)"
    using joinRoom_contract [OF d(1), of "''ZZZZ''" "''Bob''"] missing by blast
  have b: "joinRoom (storeWith playingRoom) ''ABCD'' ''Eve'' = Inr (False, storeWith playingRoom)"
    using joinRoom_contract [OF d(1), of "''ABCD''" "''Eve''"] full by blast
  have c: "joinRoom (storeWith waitingRoom) ''ABCD'' ''Bob'' =
             Inr (True,
                  (storeWith waitingRoom)
                    \<lparr>rooms := (rooms (storeWith waitingRoom))(''ABCD'' \<mapsto>
                                waitingRoom\<lparr>player2 := \<lparr>name = ''Bob'', symbol = SymO, joined = True\<rparr>,
                                            status := PLAYING\<rparr>),
                     onDisconnect := onDisconnect (storeWith waitingRoom) @ [(''ABCD'', False)]\<rparr>)"
    using joinRoom_contract [OF d(2), of "''ABCD''" "''Bob''"] free by blast
  show ?thesis using d(1) a b by (simp add: c playingRoom_def)
qed

text \<open>
  C5, as the code has it. With the store not initialised, \<^verbatim>\<open>createRoom\<close> and \<^verbatim>\<open>joinRoom\<close>
  throw; \<^verbatim>\<open>updateGameState\<close>, like \<^verbatim>\<open>leaveRoom\<close>, returns without a write and without
  throwing; \<^verbatim>\<open>subscribeToRoom\<close> returns an unsubscribe function that does nothing.
\<close>

theorem unavailable_store:
  assumes "\<not> db fb"
  shows "createRoom rnd now fb playerName = Inl DatabaseNotInitialized
       \<and> joinRoom fb code playerName = Inl DatabaseNotInitialized
       \<and> updateGameState now fb code b t w = Inr fb
       \<and> leaveRoom fb code isPlayer1 = Inr fb
       \<and> subscribeToRoom fb code = (Inert, fb)
       \<and> unsubscribe (fst (subscribeToRoom fb code)) fb' = fb'"
  using assms by (simp add: createRoom_def joinRoom_def updateGameState_def leaveRoom_def subscribeToRoom_def)

theorem unavailable_store_witness:
  "\<not> db (emptyStore False)
   \<and> createRoom (\<lambda>i. 0) 0 (emptyStore False) ''Ann'' = Inl DatabaseNotInitialized
   \<and> joinRoom (emptyStore False) ''ABCD'' ''Bob'' = Inl DatabaseNotInitialized
   \<and> updateGameState 0 (emptyStore False) ''ABCD'' EMPTY_BOARD SymO None = Inr (emptyStore False)
   \<and> leaveRoom (emptyStore False) ''ABCD'' True = Inr (emptyStore False)
   \<and> subscribeToRoom (emptyStore False) ''ABCD'' = (Inert, emptyStore False)"
proof -
  have h: "\<not> db (emptyStore False)" by (simp add: emptyStore_def)
  show ?thesis
    using h unavailable_store [OF h, of "\<lambda>i. 0" 0 "''Ann''" "''ABCD''" EMPTY_BOARD SymO None True]
      unavailable_store [OF h, of "\<lambda>i. 0" 0 "''Bob''" "''ABCD''" EMPTY_BOARD SymO None True]
    by blast
qed

text \<open>
  C5, as the spec has it, fails: \<^verbatim>\<open>updateGameState\<close> on a store that is not initialised
  does not throw, it resolves and leaves the store untouched.
\<close>

theorem updateGameState_unavailable_counterexample:
  "\<not> db (emptyStore False)
   \<and> updateGameState 0 (emptyStore False) ''ABCD'' EMPTY_BOARD SymO None \<noteq> Inl DatabaseNotInitialized
   \<and> updateGameState 0 (emptyStore False) ''ABCD'' EMPTY_BOARD SymO None = Inr (emptyStore False)"
  by (simp add: updateGameState_def emptyStore_def)

text \<open>
  C6. Over the snapshots of one subscription the callback arms the lobby-to-game timer
  once if the ref \<^verbatim>\<open>hasTransitionedToGameRef\<close> is unset at the start and some snapshot
  reports \<^verbatim>\<open>player2.joined\<close>, however many snapshots report it, and never otherwise;
  the run of the callback that arms the timer is the one that sets the ref, and the
  ref stays set. \<^verbatim>\<open>handleCreateRoom\<close> unsets the ref when it enters the lobby, and the
  armed timer moves the view from the lobby to the game.
\<close>

theorem opponent_joined_latch:
  "timers (deliver app snapshots) =
     timers app + (if \<not> hasTransitionedToGameRef app \<and> (\<exists>d\<in>set snapshots. joined (player2 d))
                   then 1 else 0)
   \<and> hasTransitionedToGameRef (deliver app snapshots) =
       (hasTransitionedToGameRef app \<or> (\<exists>d\<in>set snapshots. joined (player2 d)))
   \<and> timers (roomCallback app data) =
       timers app + (if \<not> hasTransitionedToGameRef app \<and> joined (player2 data) then 1 else 0)
   \<and> hasTransitionedToGameRef (roomCallback app data) =
       (hasTransitionedToGameRef app \<or> joined (player2 data))
   \<and> (db fb \<longrightarrow> \<not> hasTransitionedToGameRef (fst (handleCreateRoom rnd now (app, fb)))
                  \<and> view (fst (handleCreateRoom rnd now (app, fb))) = LOBBY)
   \<and> (view app = LOBBY \<and> timers app = 0 \<and> \<not> hasTransitionedToGameRef app
        \<and> (\<exists>d\<in>set snapshots. joined (player2 d)) \<longrightarrow>
        view (transitionTimer (deliver app snapshots)) = GAME
        \<and> timers (transitionTimer (deliver app snapshots)) = 0)"
proof -
  have create: "db fb \<longrightarrow> \<not> hasTransitionedToGameRef (fst (handleCreateRoom rnd now (app, fb)))
                  \<and> view (fst (handleCreateRoom rnd now (app, fb))) = LOBBY"
    by (simp add: handleCreateRoom_def createRoom_def Let_def resetBoard_def)
  have fire: "view app = LOBBY \<and> timers app = 0 \<and> \<not> hasTransitionedToGameRef app
        \<and> (\<exists>d\<in>set snapshots. joined (player2 d)) \<longrightarrow>
        view (transitionTimer (deliver app snapshots)) = GAME
        \<and> timers (transitionTimer (deliver app snapshots)) = 0"
    using deliver_latch [of app snapshots] deliver_view [of app snapshots]
    by (simp add: transitionTimer_def)
  show ?thesis
    using deliver_latch [of app snapshots] roomCallback_latch [of app data] create fire
    by blast
qed

definition lobbyApp :: AppState where
  "lobbyApp = initialApp\<lparr>view := LOBBY, gameMode := ONLINE, mySymbol := Some SymX, roomCode := ''ABCD''\<rparr>"

theorem opponent_joined_latch_witness:
  "(\<exists>d\<in>set [waitingRoom, playingRoom, playingRoom, playingRoom]. joined (player2 d))
   \<and> timers (deliver lobbyApp [waitingRoom, playingRoom, playingRoom, playingRoom]) = 1
   \<and> hasTransitionedToGameRef (deliver lobbyApp [waitingRoom, playingRoom, playingRoom, playingRoom])
   \<and> view (transitionTimer (deliver lobbyApp [waitingRoom, playingRoom, playingRoom, playingRoom])) = GAME"
proof -
  have j: "\<exists>d\<in>set [waitingRoom, playingRoom, playingRoom, playingRoom]. joined (player2 d)"
    by (simp add: playingRoom_def)
  have s: "view lobbyApp = LOBBY \<and> timers lobbyApp = 0 \<and> \<not> hasTransitionedToGameRef lobbyApp"
    by (simp add: lobbyApp_def initialApp_def)
  show ?thesis
    using j s
      opponent_joined_latch [of lobbyApp "[waitingRoom, playingRoom, playingRoom, playingRoom]"]
    by simp
qed

text \<open>
  C7. On an initialised store and an existing room, \<^verbatim>\<open>updateGameState\<close> writes \<^verbatim>\<open>board\<close>,
  \<^verbatim>\<open>currentTurn = nextTurn\<close> and \<^verbatim>\<open>lastMoveTimestamp = Date.now()\<close>; the paths \<^verbatim>\<open>winner\<close>
  and \<^verbatim>\<open>status\<close> are in the update exactly when \<^verbatim>\<open>winner\<close> is not null, and then
  \<^verbatim>\<open>status\<close> is \<^verbatim>\<open>FINISHED\<close>. Both player slots, every other room, and with a null
  \<^verbatim>\<open>winner\<close> the room's winner and status, stay as they were. So a room in which a
  winner implies \<^verbatim>\<open>FINISHED\<close> is still such a room afterwards.
\<close>

theorem updateGameState_frame:
  assumes "db fb" and "rooms fb code = Some room"
  shows "updateGameState now fb code b nextTurn w =
           Inr (fb\<lparr>rooms := (rooms fb)(code \<mapsto>
                  room\<lparr>RoomData.board := b, RoomData.currentTurn := nextTurn,
                       lastMoveTimestamp := Some now,
                       RoomData.winner := (case w of None \<Rightarrow> RoomData.winner room | Some v \<Rightarrow> Some v),
                       status := (case w of None \<Rightarrow> status room | Some v \<Rightarrow> FINISHED)\<rparr>)\<rparr>)
       \<and> ((\<exists>v. (code, W_winner v) \<in> set (gameStateUpdates now code b nextTurn w)) = (w \<noteq> None))
       \<and> ((\<exists>s. (code, W_status s) \<in> set (gameStateUpdates now code b nextTurn w)) = (w \<noteq> None))
       \<and> (\<forall>fb' room'. updateGameState now fb code b nextTurn w = Inr fb' \<and> rooms fb' code = Some room' \<and>
             (RoomData.winner room \<noteq> None \<longrightarrow> status room = FINISHED) \<longrightarrow>
             (RoomData.winner room' \<noteq> None \<longrightarrow> status room' = FINISHED))"
proof -
  note eq = updateGameState_written [OF assms, of now b nextTurn w]
  have paths: "((\<exists>v. (code, W_winner v) \<in> set (gameStateUpdates now code b nextTurn w)) = (w \<noteq> None))
       \<and> ((\<exists>s. (code, W_status s) \<in> set (gameStateUpdates now code b nextTurn w)) = (w \<noteq> None))"
    by (cases w) (auto simp: gameStateUpdates_def)
  have inv: "\<forall>fb' room'. updateGameState now fb code b nextTurn w = Inr fb' \<and> rooms fb' code = Some room' \<and>
             (RoomData.winner room \<noteq> None \<longrightarrow> status room = FINISHED) \<longrightarrow>
             (RoomData.winner room' \<noteq> None \<longrightarrow> status room' = FINISHED)"
    unfolding eq by (cases w) auto
  show ?thesis using eq paths inv by blast
qed

theorem updateGameState_frame_witness:
  "db (storeWith playingRoom) \<and> rooms (storeWith playingRoom) ''ABCD'' = Some playingRoom
   \<and> (case updateGameState 7 (storeWith playingRoom) ''ABCD'' (EMPTY_BOARD[0 := Mark SymX]) SymO None of
         Inl e \<Rightarrow> False
       | Inr fb' \<Rightarrow>
           rooms fb' ''ABCD'' =
             Some (playingRoom\<lparr>RoomData.board := EMPTY_BOARD[0 := Mark SymX],
                               RoomData.currentTurn := SymO, lastMoveTimestamp := Some 7\<rparr>))
   \<and> (case updateGameState 7 (storeWith playingRoom) ''ABCD'' (EMPTY_BOARD[0 := Mark SymX]) SymO (Some Draw) of
         Inl e \<Rightarrow> False
       | Inr fb' \<Rightarrow>
           map_option status (rooms fb' ''ABCD'') = Some FINISHED
           \<and> map_option RoomData.winner (rooms fb' ''ABCD'') = Some (Some Draw)
           \<and> map_option player1 (rooms fb' ''ABCD'') = Some (player1 playingRoom)
           \<and> map_option player2 (rooms fb' ''ABCD'') = Some (player2 playingRoom))"
proof -
  have d: "db (storeWith playingRoom)"
    by (simp add: storeWith_def emptyStore_def)
  have r: "rooms (storeWith playingRoom) ''ABCD'' = Some playingRoom"
    by (simp add: storeWith_def emptyStore_def)
  show ?thesis
    using d r
      conjunct1 [OF updateGameState_frame [OF d r, of 7 "EMPTY_BOARD[0 := Mark SymX]" SymO None]]
      conjunct1 [OF updateGameState_frame [OF d r, of 7 "EMPTY_BOARD[0 := Mark SymX]" SymO "Some Draw"]]
    by simp
qed

text \<open>
  C9. On an initialised store and an existing room, \<^verbatim>\<open>leaveRoom\<close> sets the \<^verbatim>\<open>joined\<close>
  flag of the designated player to false and changes nothing else in the store: the
  other slot, the designated slot's name and symbol, board, turn, status and winner
  are as before. A second call with the same arguments returns the store of the first.
\<close>

theorem leaveRoom_frame:
  assumes "db fb" and "rooms fb code = Some room"
  shows "leaveRoom fb code isPlayer1 =
           Inr (fb\<lparr>rooms := (rooms fb)(code \<mapsto>
                  (if isPlayer1 then room\<lparr>player1 := (player1 room)\<lparr>joined := False\<rparr>\<rparr>
                   else room\<lparr>player2 := (player2 room)\<lparr>joined := False\<rparr>\<rparr>))\<rparr>)
       \<and> (case leaveRoom fb code isPlayer1 of
             Inr fb1 \<Rightarrow> leaveRoom fb1 code isPlayer1 = Inr fb1
           | Inl e \<Rightarrow> False)"
  using assms
  by (auto simp: leaveRoom_def update_Cons update_Nil)

theorem leaveRoom_frame_witness:
  "db (storeWith playingRoom) \<and> rooms (storeWith playingRoom) ''ABCD'' = Some playingRoom
   \<and> (case leaveRoom (storeWith playingRoom) ''ABCD'' True of
         Inl e \<Rightarrow> False
       | Inr fb' \<Rightarrow>
           rooms fb' ''ABCD'' = Some (playingRoom\<lparr>player1 := (player1 playingRoom)\<lparr>joined := False\<rparr>\<rparr>)
           \<and> map_option player2 (rooms fb' ''ABCD'') = Some (player2 playingRoom)
           \<and> leaveRoom fb' ''ABCD'' True = Inr fb')"
proof -
  have d: "db (storeWith playingRoom)"
    by (simp add: storeWith_def emptyStore_def)
  have r: "rooms (storeWith playingRoom) ''ABCD'' = Some playingRoom"
    by (simp add: storeWith_def emptyStore_def)
  note t = leaveRoom_frame [OF d r, of True]
  show ?thesis
    using d r conjunct1 [OF t] conjunct2 [OF t]
    by simp
qed

subsection \<open>Helper lemmas on random draws, room codes and the AI's candidate moves\<close>

lemma floor_scale:
  fixes r :: real
  assumes "0 \<le> r" and "r < 1" and "0 < n"
  shows "0 \<le> \<lfloor>r * real n\<rfloor> \<and> \<lfloor>r * real n\<rfloor> < int n"
proof -
  have "0 \<le> r * real n" using assms by simp
  moreover have "r * real n < real n" using assms by simp
  ultimately show ?thesis by (simp add: floor_less_iff)
qed

lemma floor_bucket:
  fixes r :: real
  assumes "0 < n"
  shows "(\<lfloor>r * real n\<rfloor> = int k) = (real k / real n \<le> r \<and> r < real (k + 1) / real n)"
proof -
  have "(\<lfloor>r * real n\<rfloor> = int k) = (real k \<le> r * real n \<and> r * real n < real k + 1)"
    by (simp add: floor_eq_iff)
  also have "\<dots> = (real k / real n \<le> r \<and> r < real (k + 1) / real n)"
    using assms by (simp add: field_simps)
  finally show ?thesis .
qed

lemma chars_length: "length chars = 32"
  by (simp add: chars_def)

lemma chars_distinct: "distinct chars"
  by (simp add: chars_def)

lemma generateRoomCode_eq:
  assumes "\<forall>i<4. 0 \<le> rnd i \<and> rnd i < 1"
  shows "generateRoomCode rnd = map (\<lambda>i. chars ! nat \<lfloor>rnd i * 32\<rfloor>) [0..<4]"
proof -
  have c: "\<And>i. i < 4 \<Longrightarrow> charAt chars \<lfloor>rnd i * real (length chars)\<rfloor> = [chars ! nat \<lfloor>rnd i * 32\<rfloor>]"
  proof -
    fix i :: nat assume "i < 4"
    then have "0 \<le> rnd i" "rnd i < 1" using assms by auto
    from floor_scale [OF this, of 32] show "charAt chars \<lfloor>rnd i * real (length chars)\<rfloor> = [chars ! nat \<lfloor>rnd i * 32\<rfloor>]"
      by (simp add: charAt_def chars_length)
  qed
  have u: "[0..<4] = [0, 1, 2, 3::nat]" by (simp add: upt_rec)
  show ?thesis
    by (simp add: generateRoomCode_def u c)
qed

lemma availableMoves_set: "set (availableMoves b) = {i. i < length b \<and> b ! i = Null}"
  by (auto simp: availableMoves_def)

lemma availableMoves_empty: "(availableMoves b = []) = (Null \<notin> set b)"
proof -
  have "(availableMoves b = []) = (set (availableMoves b) = {})" by simp
  also have "\<dots> = (Null \<notin> set b)"
    unfolding availableMoves_set by (auto simp: in_set_conv_nth)
  finally show ?thesis .
qed

lemma pick_member:
  assumes "0 \<le> k" and "k < int (length xs)"
  shows "\<exists>i\<in>set xs. pick xs k = Some (int i)"
  using assms by (auto simp: pick_def)

lemma hardStep_move:
  "snd (hardStep b acc i) = snd acc \<or> (cellAt b i = Null \<and> snd (hardStep b acc i) = int i)"
  by (simp add: hardStep_def Let_def)

lemma hardLoop_move:
  "snd (foldl (hardStep b) acc xs) = snd acc
   \<or> (\<exists>i\<in>set xs. cellAt b i = Null \<and> snd (foldl (hardStep b) acc xs) = int i)"
proof (induction xs arbitrary: acc)
  case Nil
  then show ?case by simp
next
  case (Cons x xs)
  from Cons.IH [of "hardStep b acc x"] hardStep_move [of b acc x]
  show ?case by auto
qed

lemma cellAt_Null: "cellAt b i = Null \<Longrightarrow> i < length b \<and> b ! i = Null"
  by (auto simp: cellAt_def split: if_splits)

subsection \<open>Claims on room codes and on the AI\<close>

text \<open>
  C8. For draws of \<^verbatim>\<open>Math.random()\<close> in \<open>[0, 1)\<close> the generated code has length 4 and
  all its characters are in the alphabet \<^verbatim>\<open>ABCDEFGHJKLMNPQRSTUVWXYZ23456789\<close>, which
  has 32 distinct symbols and none of \<^verbatim>\<open>0\<close>, \<^verbatim>\<open>1\<close>, \<^verbatim>\<open>O\<close>, \<^verbatim>\<open>I\<close>. The \<open>i\<close>-th
  character depends on the \<open>i\<close>-th draw alone, and it is the \<open>k\<close>-th symbol exactly
  when that draw is in \<open>[k/32, (k+1)/32)\<close>: 32 intervals of the same length, so
  uniform and independent draws give uniform and independent characters.
  \<^verbatim>\<open>createRoom\<close> writes the initial document under the generated code whatever the
  store holds there: with a room already under that code the result is the same.
\<close>

theorem room_code_shape:
  assumes "\<forall>i<4. 0 \<le> rnd i \<and> rnd i < 1"
  shows "length (generateRoomCode rnd) = 4
       \<and> set (generateRoomCode rnd) \<subseteq> set chars
       \<and> length chars = 32 \<and> distinct chars
       \<and> set chars \<inter> {CHR ''0'', CHR ''1'', CHR ''O'', CHR ''I''} = {}
       \<and> (\<forall>i<4. \<forall>k<32. (generateRoomCode rnd ! i = chars ! k)
                          = (real k / 32 \<le> rnd i \<and> rnd i < real (k + 1) / 32))
       \<and> (db fb \<longrightarrow>
            createRoom rnd now fb playerName =
              Inr (generateRoomCode rnd,
                   fb\<lparr>rooms := (rooms fb)(generateRoomCode rnd \<mapsto> initialData playerName now),
                      onDisconnect := onDisconnect fb @ [(generateRoomCode rnd, True)]\<rparr>)
            \<and> (\<forall>old. createRoom rnd now (fb\<lparr>rooms := (rooms fb)(generateRoomCode rnd \<mapsto> old)\<rparr>) playerName
                        = createRoom rnd now fb playerName))"
proof -
  note eq = generateRoomCode_eq [OF assms]
  have idx: "\<And>i. i < 4 \<Longrightarrow> 0 \<le> \<lfloor>rnd i * 32\<rfloor> \<and> \<lfloor>rnd i * 32\<rfloor> < 32"
  proof -
    fix i :: nat assume "i < 4"
    then have "0 \<le> rnd i" "rnd i < 1" using assms by auto
    from floor_scale [OF this, of 32] show "0 \<le> \<lfloor>rnd i * 32\<rfloor> \<and> \<lfloor>rnd i * 32\<rfloor> < 32" by simp
  qed
  have len: "length (generateRoomCode rnd) = 4" by (simp add: eq)
  have sub: "set (generateRoomCode rnd) \<subseteq> set chars"
  proof
    fix c assume "c \<in> set (generateRoomCode rnd)"
    then obtain i where i: "i < 4" and c: "c = chars ! nat \<lfloor>rnd i * 32\<rfloor>"
      by (auto simp: eq)
    have "nat \<lfloor>rnd i * 32\<rfloor> < length chars" unfolding chars_length using idx [OF i] by linarith
    then show "c \<in> set chars" unfolding c by (rule nth_mem)
  qed
  have excl: "set chars \<inter> {CHR ''0'', CHR ''1'', CHR ''O'', CHR ''I''} = {}"
    by (simp add: chars_def)
  have bucket: "\<forall>i<4. \<forall>k<32. (generateRoomCode rnd ! i = chars ! k)
                          = (real k / 32 \<le> rnd i \<and> rnd i < real (k + 1) / 32)"
  proof (intro allI impI)
    fix i k :: nat assume i: "i < 4" and k: "k < 32"
    have "generateRoomCode rnd ! i = chars ! nat \<lfloor>rnd i * 32\<rfloor>"
      using i by (simp add: eq)
    moreover have "(chars ! nat \<lfloor>rnd i * 32\<rfloor> = chars ! k) = (nat \<lfloor>rnd i * 32\<rfloor> = k)"
    proof (rule nth_eq_iff_index_eq [OF chars_distinct])
      show "nat \<lfloor>rnd i * 32\<rfloor> < length chars" unfolding chars_length using idx [OF i] by linarith
      show "k < length chars" using k by (simp add: chars_length)
    qed
    moreover have "(nat \<lfloor>rnd i * 32\<rfloor> = k) = (\<lfloor>rnd i * 32\<rfloor> = int k)"
      using idx [OF i] by linarith
    moreover have "(\<lfloor>rnd i * 32\<rfloor> = int k) = (real k / 32 \<le> rnd i \<and> rnd i < real (k + 1) / 32)"
      using floor_bucket [of 32 "rnd i" k] by simp
    ultimately show "(generateRoomCode rnd ! i = chars ! k)
                          = (real k / 32 \<le> rnd i \<and> rnd i < real (k + 1) / 32)"
      by simp
  qed
  have create: "db fb \<longrightarrow>
            createRoom rnd now fb playerName =
              Inr (generateRoomCode rnd,
                   fb\<lparr>rooms := (rooms fb)(generateRoomCode rnd \<mapsto> initialData playerName now),
                      onDisconnect := onDisconnect fb @ [(generateRoomCode rnd, True)]\<rparr>)
            \<and> (\<forall>old. createRoom rnd now (fb\<lparr>rooms := (rooms fb)(generateRoomCode rnd \<mapsto> old)\<rparr>) playerName
                        = createRoom rnd now fb playerName)"
    by (simp add: createRoom_def Let_def)
  show ?thesis using len sub chars_length chars_distinct excl bucket create by blast
qed

theorem room_code_shape_witness:
  "(0::real) \<le> real 0 / 4 \<and> real 3 / 4 < (1::real)
   \<and> generateRoomCode (\<lambda>i. real i / 4) = ''AJS2''
   \<and> length (generateRoomCode (\<lambda>i. real i / 4)) = 4
   \<and> set (generateRoomCode (\<lambda>i. real i / 4)) \<subseteq> set chars
   \<and> (case createRoom (\<lambda>i. real i / 4) 0 (storeWith playingRoom\<lparr>rooms := [''AJS2'' \<mapsto> playingRoom]\<rparr>) ''Zoe'' of
         Inl e \<Rightarrow> False
       | Inr (code, fb') \<Rightarrow> code = ''AJS2'' \<and> rooms fb' ''AJS2'' = Some (initialData ''Zoe'' 0))"
proof -
  have h: "\<forall>i<4. 0 \<le> (\<lambda>i. real i / 4) i \<and> (\<lambda>i. real i / 4) i < 1" by simp
  have v: "generateRoomCode (\<lambda>i. real i / 4) = ''AJS2''"
    by (simp add: generateRoomCode_def chars_def charAt_def upt_rec)
  have d: "db (storeWith playingRoom\<lparr>rooms := [''AJS2'' \<mapsto> playingRoom]\<rparr>)"
    by (simp add: storeWith_def emptyStore_def)
  note t = room_code_shape [OF h, of "storeWith playingRoom\<lparr>rooms := [''AJS2'' \<mapsto> playingRoom]\<rparr>" 0 "''Zoe''"]
  from t have l: "length (generateRoomCode (\<lambda>i. real i / 4)) = 4"
    and s: "set (generateRoomCode (\<lambda>i. real i / 4)) \<subseteq> set chars"
    by blast+
  from t d have c: "createRoom (\<lambda>i. real i / 4) 0 (storeWith playingRoom\<lparr>rooms := [''AJS2'' \<mapsto> playingRoom]\<rparr>) ''Zoe'' =
              Inr (generateRoomCode (\<lambda>i. real i / 4),
                   (storeWith playingRoom\<lparr>rooms := [''AJS2'' \<mapsto> playingRoom]\<rparr>)
                     \<lparr>rooms := (rooms (storeWith playingRoom\<lparr>rooms := [''AJS2'' \<mapsto> playingRoom]\<rparr>))
                                 (generateRoomCode (\<lambda>i. real i / 4) \<mapsto> initialData ''Zoe'' 0),
                      onDisconnect := onDisconnect (storeWith playingRoom\<lparr>rooms := [''AJS2'' \<mapsto> playingRoom]\<rparr>)
                                      @ [(generateRoomCode (\<lambda>i. real i / 4), True)]\<rparr>)"
    by blast
  show ?thesis using l s by (simp add: c v)
qed

text \<open>
  C10. For a board of nine cells, every difficulty and every draw of \<^verbatim>\<open>Math.random()\<close>
  in \<open>[0, 1)\<close>: \<^verbatim>\<open>getBestMove\<close> returns \<open>-1\<close> when no cell is \<^verbatim>\<open>null\<close>, and otherwise an
  index \<open>i\<close> in \<open>0..8\<close> with \<^verbatim>\<open>board[i] === null\<close>, a cell \<^verbatim>\<open>handleMove\<close> does not
  reject as occupied.
\<close>

theorem getBestMove_legal:
  assumes len: "length b = 9" and r0: "0 \<le> r" and r1: "r < 1"
  shows "(Null \<notin> set b \<longrightarrow> getBestMove b difficulty r = Some (- 1))
       \<and> (Null \<in> set b \<longrightarrow>
            (\<exists>i<9. getBestMove b difficulty r = Some (int i) \<and> b ! i = Null
                    \<and> \<not> truthy (cellAt b i)))"
proof (cases "Null \<in> set b")
  case False
  then have "availableMoves b = []" by (simp add: availableMoves_empty)
  then show ?thesis using False by (simp add: getBestMove_def Let_def)
next
  case True
  let ?av = "availableMoves b"
  have ne: "?av \<noteq> []" using True by (simp add: availableMoves_empty)
  then have pos: "0 < length ?av" by simp
  have mem: "\<And>i. i \<in> set ?av \<Longrightarrow> i < 9 \<and> b ! i = Null \<and> \<not> truthy (cellAt b i)"
    using len by (auto simp: availableMoves_set cellAt_def)
  have rand: "\<exists>i\<in>set ?av. pick ?av (randomIndex r (length ?av)) = Some (int i)"
    using floor_scale [OF r0 r1 pos] by (intro pick_member) (simp_all add: randomIndex_def)
  have first: "\<exists>i\<in>set ?av. pick ?av 0 = Some (int i)"
    using pos by (intro pick_member) simp_all
  have "\<exists>i\<in>set ?av. getBestMove b difficulty r = Some (int i)"
  proof (cases difficulty)
    case EASY
    then show ?thesis using rand ne by (simp add: getBestMove_def Let_def)
  next
    case MEDIUM
    show ?thesis
    proof (cases "find (\<lambda>move. checkWinner (b[move := Mark SymO]) = Some (Sym SymO)) ?av")
      case (Some m)
      then have "m \<in> set ?av" by (auto simp: find_Some_iff)
      then show ?thesis using Some MEDIUM ne by (simp add: getBestMove_def Let_def)
    next
      case None
      note n1 = None
      show ?thesis
      proof (cases "find (\<lambda>move. checkWinner (b[move := Mark SymX]) = Some (Sym SymX)) ?av")
        case (Some m)
        then have "m \<in> set ?av" by (auto simp: find_Some_iff)
        then show ?thesis using Some n1 MEDIUM ne by (simp add: getBestMove_def Let_def)
      next
        case None
        then show ?thesis using n1 MEDIUM ne rand by (simp add: getBestMove_def Let_def)
      qed
    qed
  next
    case HARD
    show ?thesis
    proof (cases "length ?av \<ge> 8 \<and> cellAt b 4 = Null")
      case True
      then have "4 \<in> set ?av" using cellAt_Null [of b 4] by (simp add: availableMoves_set)
      moreover have "getBestMove b difficulty r = Some 4"
        using True HARD ne by (simp add: getBestMove_def Let_def)
      ultimately show ?thesis by (intro bexI [of _ 4]) simp_all
    next
      case False
      let ?m = "snd (foldl (hardStep b) (NegInf, - 1) [0..<9])"
      have g: "getBestMove b difficulty r = (if ?m \<noteq> - 1 then Some ?m else pick ?av 0)"
        using False HARD ne by (auto simp: getBestMove_def Let_def)
      show ?thesis
      proof (cases "?m = - 1")
        case True
        then show ?thesis using g first by simp
      next
        case False
        with hardLoop_move [of b "(NegInf, - 1)" "[0..<9]"]
        obtain i where "cellAt b i = Null" "?m = int i" by auto
        then have "i \<in> set ?av" using cellAt_Null [of b i] by (simp add: availableMoves_set)
        then show ?thesis using g False \<open>?m = int i\<close> by auto
      qed
    qed
  qed
  then show ?thesis using True mem by blast
qed

definition lateBoard :: "CellValue list" where
  "lateBoard = [Mark SymX, Mark SymO, Mark SymX, Mark SymX, Mark SymO, Mark SymO, Null, Mark SymX, Null]"

theorem getBestMove_legal_witness:
  "length lateBoard = 9 \<and> (0::real) \<le> 1 / 2 \<and> (1::real) / 2 < 1
   \<and> getBestMove (replicate 9 (Mark SymX)) MEDIUM (1 / 2) = Some (- 1)
   \<and> (\<exists>i<9. getBestMove lateBoard HARD (1 / 2) = Some (int i) \<and> lateBoard ! i = Null)
   \<and> (\<exists>i<9. getBestMove lateBoard EASY (1 / 2) = Some (int i) \<and> lateBoard ! i = Null)"
proof -
  have l: "length lateBoard = 9" by (simp add: lateBoard_def)
  have f: "length (replicate 9 (Mark SymX)) = 9" by simp
  have r: "(0::real) \<le> 1 / 2" "(1::real) / 2 < 1" by simp_all
  have n: "Null \<in> set lateBoard" by (simp add: lateBoard_def)
  have m: "Null \<notin> set (replicate 9 (Mark SymX))" by simp
  show ?thesis
    using l r n m
      getBestMove_legal [OF l r, of HARD]
      getBestMove_legal [OF l r, of EASY]
      getBestMove_legal [OF f r, of MEDIUM]
    by blast
qed

lemma getBestMove_hard_example: "getBestMove lateBoard HARD (1 / 2) = Some 6"
  by code_simp

subsection \<open>Claims on the online move\<close>










end
